theory Spec2Isabelle
  imports Main "HOL-Library.AList"
begin

section \<open>Values, keypaths and the host's data\<close>

text \<open>
  The decorator of \<^verbatim>\<open>Ractive-decorators-sortable.js\<close> keeps its state in the variables of
  one module closure and works on two collaborators: the DOM (elements, class lists,
  listeners, drag events) and Ractive (contexts of elements, keypaths, \<^verbatim>\<open>get\<close>,
  \<^verbatim>\<open>splice\<close>, \<^verbatim>\<open>fire\<close>). The module's functions are translated from the source; the
  collaborators, which are not part of the repository, are modelled from the interfaces
  the specification lists, each under a comment that says so.
\<close>

type_synonym node = nat
  \<comment> \<open>identity of a DOM element\<close>

type_synonym inst = nat
  \<comment> \<open>identity of a Ractive instance\<close>

type_synonym keypath = "string list"
  \<comment> \<open>a keypath such as \<^verbatim>\<open>list.0\<close>, kept as its path segments \<open>[''list'', ''0'']\<close>;
      \<^verbatim>\<open>===\<close> on two keypaths is equality of the segment lists\<close>

datatype jsval =
    Undefined
  | Null
  | Bool bool
  | Num int
  | Str string
  | Arr "jsval list"
  | Obj "(string \<times> jsval) list"

datatype arg = Absent | NullArg | StrArg string
  \<comment> \<open>an argument of the decorator as a template passes it: left out (\<^verbatim>\<open>undefined\<close>),
      \<^verbatim>\<open>null\<close>, or a string\<close>

datatype error =
    TypeError
    \<comment> \<open>a property read or written on \<^verbatim>\<open>undefined\<close> or \<^verbatim>\<open>null\<close>\<close>
  | InvalidBinding
    \<comment> \<open>\<^verbatim>\<open>new Error(errorMessage)\<close>\<close>
  | SyntaxError
    \<comment> \<open>thrown by \<^verbatim>\<open>querySelector\<close> for a string that is not a selector\<close>
  | HostError
    \<comment> \<open>thrown by Ractive itself\<close>

definition errorMessage :: string where
  "errorMessage =
     ''The sortable decorator only works with elements that correspond to array members''"

definition digit_val :: "char \<Rightarrow> nat option" where
  "digit_val =
     map_of [(CHR ''0'', 0), (CHR ''1'', 1), (CHR ''2'', 2), (CHR ''3'', 3), (CHR ''4'', 4),
             (CHR ''5'', 5), (CHR ''6'', 6), (CHR ''7'', 7), (CHR ''8'', 8), (CHR ''9'', 9)]"

fun parse_digits :: "nat \<Rightarrow> string \<Rightarrow> nat option" where
  "parse_digits acc [] = Some acc"
| "parse_digits acc (c # cs) =
     (case digit_val c of None \<Rightarrow> None | Some d \<Rightarrow> parse_digits (10 * acc + d) cs)"

definition parse_index :: "string \<Rightarrow> nat option" where
  \<comment> \<open>Modelled from the spec: the final path segment "interpreted as a 0-based index".
      Ractive writes the index of an array member as its decimal numeral; any other
      segment is not an index.\<close>
  "parse_index s = (if s = [] then None else parse_digits 0 s)"

fun get_in :: "jsval \<Rightarrow> keypath \<Rightarrow> jsval" where
  \<comment> \<open>Modelled from the spec: the host's \<^verbatim>\<open>get(path) -> value\<close>, reading the data
      of one instance along a keypath; a path that leads nowhere reads \<^verbatim>\<open>undefined\<close>.\<close>
  "get_in v [] = v"
| "get_in (Obj kvs) (s # ss) =
     (case map_of kvs s of None \<Rightarrow> Undefined | Some v \<Rightarrow> get_in v ss)"
| "get_in (Arr xs) (s # ss) =
     (case parse_index s of
        None \<Rightarrow> Undefined
      | Some i \<Rightarrow> if i < length xs then get_in (xs ! i) ss else Undefined)"
| "get_in _ (s # ss) = Undefined"

fun modify_in :: "(jsval \<Rightarrow> jsval) \<Rightarrow> jsval \<Rightarrow> keypath \<Rightarrow> jsval" where
  \<comment> \<open>Modelled from the spec: the write that the host's \<^verbatim>\<open>splice\<close> makes, the data
      with the value at a keypath replaced; a path that leads nowhere changes nothing.\<close>
  "modify_in f v [] = f v"
| "modify_in f (Obj kvs) (s # ss) =
     (case map_of kvs s of
        None \<Rightarrow> Obj kvs
      | Some v \<Rightarrow> Obj (AList.update s (modify_in f v ss) kvs))"
| "modify_in f (Arr xs) (s # ss) =
     (case parse_index s of
        None \<Rightarrow> Arr xs
      | Some i \<Rightarrow> if i < length xs then Arr (xs[i := modify_in f (xs ! i) ss]) else Arr xs)"
| "modify_in f v (s # ss) = v"

definition isArray :: "jsval \<Rightarrow> bool" where
  \<comment> \<open>Modelled from the spec: \<^verbatim>\<open>isArrayValue(value) -> boolean\<close>.\<close>
  "isArray v = (case v of Arr _ \<Rightarrow> True | _ \<Rightarrow> False)"

definition to_index :: "string option \<Rightarrow> nat" where
  \<comment> \<open>Modelled from the spec: the index that the host's \<^verbatim>\<open>splice\<close> derives from a path
      segment, as \<^verbatim>\<open>Array.prototype.splice\<close> does: the number a decimal numeral denotes,
      and 0 for \<^verbatim>\<open>undefined\<close> or a segment that is not a number.\<close>
  "to_index seg =
     (case seg of
        None \<Rightarrow> 0
      | Some s \<Rightarrow> (case parse_index s of None \<Rightarrow> 0 | Some i \<Rightarrow> i))"

definition array_splice :: "jsval list \<Rightarrow> nat \<Rightarrow> nat \<Rightarrow> jsval list \<Rightarrow> jsval list" where
  \<comment> \<open>Modelled from the spec: what the host's \<^verbatim>\<open>splice\<close> does to the array,
      \<^verbatim>\<open>xs.splice(start, deleteCount, ...items)\<close>; a start beyond the end is the end.\<close>
  "array_splice xs start deleteCount items =
     take start xs @ items @ drop (start + deleteCount) xs"

section \<open>The state the module works on\<close>

record "context" =
  ctx_ractive :: inst
  ctx_keypath :: keypath

datatype call =
    Splice inst keypath "string option" nat "jsval list"
    \<comment> \<open>\<^verbatim>\<open>ractive.splice(keypath, index, removeCount, ...items)\<close>\<close>
  | Fire inst string "context" "string list"
    \<comment> \<open>\<^verbatim>\<open>ractive.fire(name, context, array)\<close>\<close>

datatype event_type = Dragstart | Dragend | Dragenter | Dragover | Drop

datatype handler = DragstartHandler | DragenterHandler | RemoveTargetClass | PreventDefault

record mapping_item =
  nodeToMove :: node
  draggableNode :: "node option"
  \<comment> \<open>\<open>None\<close> is the \<^verbatim>\<open>null\<close> of a \<^verbatim>\<open>querySelector\<close> that found nothing\<close>

record world =
  \<comment> \<open>the variables of the module closure\<close>
  nodeMapping :: "mapping_item list"
  ractive :: "inst option"
  sourceKeypath :: "keypath option"
  sourceArray :: "keypath option"
  eventNameToFire :: arg
  \<comment> \<open>the DOM\<close>
  querySelector :: "node \<Rightarrow> string \<Rightarrow> error + node option"
  targetClass_of :: "node \<Rightarrow> string option"
  classList :: "node \<Rightarrow> string set"
  draggable :: "node \<Rightarrow> bool"
  listeners :: "(node \<times> event_type \<times> handler) set"
  \<comment> \<open>Ractive\<close>
  getContext :: "node \<Rightarrow> context"
  data :: "inst \<Rightarrow> jsval"
  calls :: "call list"

text \<open>
  \<open>ractive\<close>, \<open>sourceKeypath\<close> and \<open>sourceArray\<close> are \<^verbatim>\<open>undefined\<close> (\<open>None\<close>)
  until a handler assigns them. \<open>querySelector n sel\<close> is what the page answers to
  \<^verbatim>\<open>n.querySelector(sel)\<close> for a non-empty string: the error it throws when the string is
  not a selector, else the element found or \<^verbatim>\<open>null\<close>.
  \<open>targetClass_of n\<close> is \<^verbatim>\<open>n.dataset.targetClass\<close>.
  \<open>listeners\<close> holds the listeners this module registered: \<^verbatim>\<open>addEventListener\<close> with a
  listener that is already registered adds nothing, so a set of (element, event type,
  function) is what the DOM keeps. Class names are taken to be valid tokens.
  \<open>getContext\<close> is what \<^verbatim>\<open>Ractive.getContext\<close> answers at the time of the event, \<open>data r\<close>
  the data of instance \<open>r\<close>, and \<open>calls\<close> the mutations and notifications Ractive has
  received, oldest first. How Ractive re-renders elements after a \<^verbatim>\<open>splice\<close> is not
  modelled: \<open>getContext\<close> is left as it is.
\<close>

record event =
  defaultPrevented :: bool
  propagationStopped :: bool
  dropEffect :: "string option"
  transferData :: "(string \<times> string) list"

record outcome =
  thrown :: "error option"
  world_after :: world
  event_after :: event

record attach_outcome =
  attach_thrown :: "error option"
  attach_world :: world
  teardown_node :: "node option"
  \<comment> \<open>the element the returned \<^verbatim>\<open>teardown\<close> closure holds; \<open>None\<close> when \<^verbatim>\<open>sortable\<close>
      threw and returned nothing\<close>

subsection \<open>Ractive, as far as the module calls it\<close>

definition splitKeypath :: "keypath \<Rightarrow> string list" where
  \<comment> \<open>Modelled from the spec: \<^verbatim>\<open>splitPositionKey(key) -> ordered sequence of path
      segments\<close>; a keypath is kept as its segments already.\<close>
  "splitKeypath k = k"

definition last_segment :: "string list \<Rightarrow> string option" where
  \<comment> \<open>\<^verbatim>\<open>array[array.length - 1]\<close>, which is \<^verbatim>\<open>undefined\<close> for an empty array\<close>
  "last_segment array = (if array = [] then None else Some (last array))"

definition resolve :: "context \<Rightarrow> keypath" where
  \<comment> \<open>Modelled from the spec: \<^verbatim>\<open>resolvePath()\<close> of a context, the keypath of the
      element's own data.\<close>
  "resolve c = ctx_keypath c"

definition resolve_parent :: "context \<Rightarrow> keypath" where
  \<comment> \<open>Modelled from the spec: \<^verbatim>\<open>resolvePath('../')\<close>, the keypath one level up.\<close>
  "resolve_parent c = butlast (ctx_keypath c)"

definition context_get_parent :: "world \<Rightarrow> context \<Rightarrow> jsval" where
  \<comment> \<open>Modelled from the spec: \<^verbatim>\<open>get('../')\<close> of a context, the value one level up in
      the data of the instance that owns the element.\<close>
  "context_get_parent w c = get_in (data w (ctx_ractive c)) (resolve_parent c)"

definition ractive_get :: "world \<Rightarrow> inst \<Rightarrow> keypath \<Rightarrow> jsval" where
  \<comment> \<open>Modelled from the spec: \<^verbatim>\<open>get(path) -> value\<close> on an instance.\<close>
  "ractive_get w r k = get_in (data w r) k"

definition ractive_splice ::
  "world \<Rightarrow> inst \<Rightarrow> keypath \<Rightarrow> string option \<Rightarrow> nat \<Rightarrow> jsval list \<Rightarrow> error option \<times> world" where
  \<comment> \<open>Modelled from the spec: \<^verbatim>\<open>splice(collectionRef, indexPathSegment, removeCount,
      ...insertValues)\<close>. The array at the keypath is spliced in place and the call is
      recorded; Ractive throws, and nothing changes, when the value there is not an
      array.\<close>
  "ractive_splice w r k seg n items =
     (case get_in (data w r) k of
        Arr xs \<Rightarrow>
          (None,
           w\<lparr>data := (data w)
                (r := modify_in (\<lambda>_. Arr (array_splice xs (to_index seg) n items))
                        (data w r) k),
             calls := calls w @ [Splice r k seg n items]\<rparr>)
      | _ \<Rightarrow> (Some HostError, w))"

definition ractive_fire :: "world \<Rightarrow> inst \<Rightarrow> string \<Rightarrow> context \<Rightarrow> string list \<Rightarrow> world" where
  \<comment> \<open>Modelled from the spec: \<^verbatim>\<open>fireEvent(name, context, payload)\<close>, fire and forget.\<close>
  "ractive_fire w r name c array = w\<lparr>calls := calls w @ [Fire r name c array]\<rparr>"

definition init_world ::
  "(node \<Rightarrow> string \<Rightarrow> error + node option) \<Rightarrow> (node \<Rightarrow> context) \<Rightarrow> (inst \<Rightarrow> jsval)
     \<Rightarrow> world" where
  \<comment> \<open>the module just loaded, on a page with the given elements, contexts and data\<close>
  "init_world qs ctx d =
     \<lparr>nodeMapping = [], ractive = None, sourceKeypath = None, sourceArray = None,
      eventNameToFire = Absent, querySelector = qs, targetClass_of = (\<lambda>_. None),
      classList = (\<lambda>_. {}), draggable = (\<lambda>_. False), listeners = {},
      getContext = ctx, data = d, calls = []\<rparr>"

section \<open>The module\<close>

definition getNodeToMove :: "world \<Rightarrow> node \<Rightarrow> error + node" where
  \<comment> \<open>\<^verbatim>\<open>nodeMapping.find(...)\<close> is \<^verbatim>\<open>undefined\<close> when no item matches, and reading
      \<^verbatim>\<open>.nodeToMove\<close> of it throws\<close>
  "getNodeToMove w dn =
     (case find (\<lambda>item. draggableNode item = Some dn) (nodeMapping w) of
        None \<Rightarrow> Inl TypeError
      | Some item \<Rightarrow> Inr (nodeToMove item))"

definition not_nullish :: "arg \<Rightarrow> bool" where
  \<comment> \<open>\<^verbatim>\<open>x != null\<close>\<close>
  "not_nullish x = (x \<noteq> Absent \<and> x \<noteq> NullArg)"

definition or_else :: "arg \<Rightarrow> string \<Rightarrow> string" where
  \<comment> \<open>\<^verbatim>\<open>x || d\<close>, as a string: \<^verbatim>\<open>undefined\<close>, \<^verbatim>\<open>null\<close> and \<^verbatim>\<open>''\<close> are falsy\<close>
  "or_else x d = (case x of StrArg s \<Rightarrow> if s = [] then d else s | _ \<Rightarrow> d)"

definition module_listeners :: "node \<Rightarrow> (node \<times> event_type \<times> handler) set" where
  \<comment> \<open>the five listeners of lines 130 to 136, which are the five of lines 140 to 144\<close>
  "module_listeners n =
     {(n, Dragstart, DragstartHandler), (n, Dragend, RemoveTargetClass),
      (n, Dragenter, DragenterHandler), (n, Dragover, PreventDefault),
      (n, Drop, RemoveTargetClass)}"

definition query :: "world \<Rightarrow> node \<Rightarrow> string \<Rightarrow> error + node option" where
  \<comment> \<open>Modelled from the spec: the rendering surface's lookup of the nested handle,
      \<^verbatim>\<open>node.querySelector(sel)\<close>. It throws for a string that is not a selector, the
      empty string being one such, and otherwise returns the element found or
      \<^verbatim>\<open>null\<close>.\<close>
  "query w node sel = (if sel = [] then Inl SyntaxError else querySelector w node sel)"

definition handle_for :: "world \<Rightarrow> node \<Rightarrow> arg \<Rightarrow> error + node option" where
  \<comment> \<open>lines 111 to 117 of \<^verbatim>\<open>sortable\<close>: the value of \<^verbatim>\<open>draggableNode\<close>, the element found
      by the selector when one is given, else the element itself; \<open>Inl\<close> when
      \<^verbatim>\<open>querySelector\<close> throws at line 113\<close>
  "handle_for w node draggableElSelector =
     (if not_nullish draggableElSelector
      then (case draggableElSelector of
              StrArg sel \<Rightarrow> query w node sel
            | _ \<Rightarrow> Inr None)
      else Inr (Some node))"

definition sortable :: "world \<Rightarrow> node \<Rightarrow> arg \<Rightarrow> arg \<Rightarrow> arg \<Rightarrow> attach_outcome" where
  "sortable w node draggableElSelector targetClass eventName =
     (case handle_for w node draggableElSelector of
        Inl err \<Rightarrow>
          \<comment> \<open>thrown at line 113, before anything is written\<close>
          \<lparr>attach_thrown = Some err, attach_world = w, teardown_node = None\<rparr>
      | Inr dn \<Rightarrow>
          (let w1 = w\<lparr>nodeMapping :=
                       nodeMapping w @ [\<lparr>nodeToMove = node, draggableNode = dn\<rparr>]\<rparr>;
               w2 = w1\<lparr>targetClass_of :=
                         (targetClass_of w1)
                           (node := Some (or_else targetClass ''droptarget''))\<rparr>;
               w3 = w2\<lparr>eventNameToFire := eventName\<rparr>
           in case dn of
                None \<Rightarrow>
                  \<comment> \<open>\<^verbatim>\<open>node.draggable = true\<close> on \<^verbatim>\<open>null\<close>\<close>
                  \<lparr>attach_thrown = Some TypeError, attach_world = w3, teardown_node = None\<rparr>
              | Some n \<Rightarrow>
                  \<lparr>attach_thrown = None,
                   attach_world =
                     w3\<lparr>draggable := (draggable w3)(n := True),
                        listeners := listeners w3 \<union> module_listeners n\<rparr>,
                   teardown_node = Some n\<rparr>))"

definition teardown :: "node \<Rightarrow> world \<Rightarrow> world" where
  \<comment> \<open>the closure \<^verbatim>\<open>sortable\<close> returns, for the element \<open>n\<close> it holds\<close>
  "teardown n w = w\<lparr>listeners := listeners w - module_listeners n\<rparr>"

definition dragstartHandler :: "world \<Rightarrow> node \<Rightarrow> event \<Rightarrow> outcome" where
  "dragstartHandler w this event =
     (case getNodeToMove w this of
        Inl err \<Rightarrow> \<lparr>thrown = Some err, world_after = w, event_after = event\<rparr>
      | Inr me \<Rightarrow>
          (let ctx = getContext w me;
               w1 = w\<lparr>sourceKeypath := Some (resolve ctx),
                      sourceArray := Some (resolve_parent ctx)\<rparr>
           in if \<not> isArray (context_get_parent w1 ctx)
              then \<lparr>thrown = Some InvalidBinding, world_after = w1, event_after = event\<rparr>
              else \<lparr>thrown = None,
                    world_after = w1\<lparr>ractive := Some (ctx_ractive ctx)\<rparr>,
                    event_after =
                      event\<lparr>transferData := AList.update ''foo'' ''true'' (transferData event),
                            propagationStopped := True\<rparr>\<rparr>))"

definition class_token :: "string option \<Rightarrow> string" where
  \<comment> \<open>the token a class list makes of \<^verbatim>\<open>dataset.targetClass\<close>; a missing attribute
      reads \<^verbatim>\<open>undefined\<close>\<close>
  "class_token c = (case c of None \<Rightarrow> ''undefined'' | Some s \<Rightarrow> s)"

definition reorder :: "world \<Rightarrow> context \<Rightarrow> keypath \<Rightarrow> event \<Rightarrow> outcome" where
  \<comment> \<open>lines 199 to 215 of \<^verbatim>\<open>dragenterHandler\<close>: \<open>sk\<close> is \<^verbatim>\<open>sourceKeypath\<close>; \<^verbatim>\<open>ractive\<close>
      is the context's instance and \<^verbatim>\<open>targetArray\<close> its parent keypath, by the checks
      that come first\<close>
  "reorder w ctx sk event =
     (let r = ctx_ractive ctx;
          targetKeypath = resolve ctx;
          targetArray = resolve_parent ctx;
          source = ractive_get w r sk;
          array = splitKeypath sk
      in case ractive_splice w r targetArray (last_segment array) 1 [] of
           (Some err, w1) \<Rightarrow> \<lparr>thrown = Some err, world_after = w1, event_after = event\<rparr>
         | (None, w1) \<Rightarrow>
             (let w2 = w1\<lparr>sourceKeypath := Some targetKeypath\<rparr>;
                  array = splitKeypath targetKeypath
              in case ractive_splice w2 r targetArray (last_segment array) 0 [source] of
                   (Some err, w3) \<Rightarrow>
                     \<lparr>thrown = Some err, world_after = w3, event_after = event\<rparr>
                 | (None, w3) \<Rightarrow>
                     (case eventNameToFire w3 of
                        StrArg name \<Rightarrow>
                          \<lparr>thrown = None,
                           world_after = ractive_fire w3 r name ctx array,
                           event_after = event\<rparr>
                      | _ \<Rightarrow> \<lparr>thrown = None, world_after = w3, event_after = event\<rparr>)))"

definition dragenterHandler :: "world \<Rightarrow> node \<Rightarrow> event \<Rightarrow> outcome" where
  "dragenterHandler w this event =
     (case getNodeToMove w this of
        Inl err \<Rightarrow> \<lparr>thrown = Some err, world_after = w, event_after = event\<rparr>
      | Inr me \<Rightarrow>
          (let event = event\<lparr>defaultPrevented := True\<rparr>;
               ctx = getContext w me
           in if Some (ctx_ractive ctx) \<noteq> ractive w
              then \<lparr>thrown = None, world_after = w, event_after = event\<rparr>
              else if Some (resolve_parent ctx) \<noteq> sourceArray w
              then \<lparr>thrown = None, world_after = w, event_after = event\<rparr>
              else if Some (resolve ctx) = sourceKeypath w
              then \<lparr>thrown = None,
                    world_after =
                      w\<lparr>classList :=
                          (classList w)
                            (me := insert (class_token (targetClass_of w me)) (classList w me))\<rparr>,
                    event_after = event\<rparr>
              else (case sourceKeypath w of
                      None \<Rightarrow>
                        \<comment> \<open>not reached from the module: \<^verbatim>\<open>ractive\<close> is assigned only
                            after \<^verbatim>\<open>sourceKeypath\<close>\<close>
                        \<lparr>thrown = Some HostError, world_after = w, event_after = event\<rparr>
                    | Some sk \<Rightarrow> reorder w ctx sk (event\<lparr>dropEffect := Some ''move''\<rparr>))))"

definition removeTargetClass :: "world \<Rightarrow> node \<Rightarrow> event \<Rightarrow> outcome" where
  "removeTargetClass w this event =
     (case getNodeToMove w this of
        Inl err \<Rightarrow> \<lparr>thrown = Some err, world_after = w, event_after = event\<rparr>
      | Inr n \<Rightarrow>
          \<lparr>thrown = None,
           world_after =
             w\<lparr>classList :=
                 (classList w)(n := classList w n - {class_token (targetClass_of w n)})\<rparr>,
           event_after = event\<lparr>propagationStopped := True\<rparr>\<rparr>)"

definition preventDefault :: "world \<Rightarrow> node \<Rightarrow> event \<Rightarrow> outcome" where
  "preventDefault w this event =
     \<lparr>thrown = None, world_after = w,
      event_after = event\<lparr>propagationStopped := True, defaultPrevented := True\<rparr>\<rparr>"

subsection \<open>The DOM delivering an event\<close>

definition run_handler :: "handler \<Rightarrow> world \<Rightarrow> node \<Rightarrow> event \<Rightarrow> outcome" where
  "run_handler h w this event =
     (case h of
        DragstartHandler \<Rightarrow> dragstartHandler w this event
      | DragenterHandler \<Rightarrow> dragenterHandler w this event
      | RemoveTargetClass \<Rightarrow> removeTargetClass w this event
      | PreventDefault \<Rightarrow> preventDefault w this event)"

fun run_listeners :: "handler list \<Rightarrow> world \<Rightarrow> node \<Rightarrow> event \<Rightarrow> outcome" where
  "run_listeners [] w this event = \<lparr>thrown = None, world_after = w, event_after = event\<rparr>"
| "run_listeners (h # hs) w this event =
     (let out = run_handler h w this event
      in case thrown out of
           Some err \<Rightarrow> out
         | None \<Rightarrow> run_listeners hs (world_after out) this (event_after out))"

definition listeners_on :: "world \<Rightarrow> node \<Rightarrow> event_type \<Rightarrow> handler list" where
  "listeners_on w n ty =
     filter (\<lambda>h. (n, ty, h) \<in> listeners w)
       [DragstartHandler, DragenterHandler, RemoveTargetClass, PreventDefault]"

definition dispatch :: "world \<Rightarrow> node \<Rightarrow> event_type \<Rightarrow> event \<Rightarrow> outcome" where
  \<comment> \<open>Modelled from the spec: the rendering surface's "native drag-event
      registration/removal". A native event of type \<open>ty\<close> on element \<open>n\<close> runs the
      listeners registered on \<open>n\<close> for \<open>ty\<close>, up to the first that throws, and
      nothing when there are none. Propagation to other elements is not modelled.\<close>
  "dispatch w n ty event = run_listeners (listeners_on w n ty) w n event"

section \<open>A page to run the module on\<close>

text \<open>
  Two Ractive instances. Instance 0 has the data
  \<^verbatim>\<open>{ list: ['a','b','c','d'], other: ['x','y'], title: 't' }\<close> and renders the
  elements 0 to 3 for the members of \<^verbatim>\<open>list\<close>, 4 and 5 for the members of \<^verbatim>\<open>other\<close>,
  and 7 for \<^verbatim>\<open>title\<close>; its template shows the first member of \<^verbatim>\<open>list\<close> a second time,
  as element 8. Instance 1 has \<^verbatim>\<open>{ list: ['p','q'] }\<close> and renders element 6 for
  \<^verbatim>\<open>list.0\<close>.
\<close>

definition example_contexts :: "node \<Rightarrow> context" where
  "example_contexts n =
     (if n = 0 then \<lparr>ctx_ractive = 0, ctx_keypath = [''list'', ''0'']\<rparr>
      else if n = 1 then \<lparr>ctx_ractive = 0, ctx_keypath = [''list'', ''1'']\<rparr>
      else if n = 2 then \<lparr>ctx_ractive = 0, ctx_keypath = [''list'', ''2'']\<rparr>
      else if n = 3 then \<lparr>ctx_ractive = 0, ctx_keypath = [''list'', ''3'']\<rparr>
      else if n = 4 then \<lparr>ctx_ractive = 0, ctx_keypath = [''other'', ''0'']\<rparr>
      else if n = 5 then \<lparr>ctx_ractive = 0, ctx_keypath = [''other'', ''1'']\<rparr>
      else if n = 6 then \<lparr>ctx_ractive = 1, ctx_keypath = [''list'', ''0'']\<rparr>
      else if n = 8 then \<lparr>ctx_ractive = 0, ctx_keypath = [''list'', ''0'']\<rparr>
      else \<lparr>ctx_ractive = 0, ctx_keypath = [''title'']\<rparr>)"

definition example_data :: "inst \<Rightarrow> jsval" where
  "example_data r =
     (if r = 0
      then Obj [(''list'', Arr [Str ''a'', Str ''b'', Str ''c'', Str ''d'']),
                (''other'', Arr [Str ''x'', Str ''y'']),
                (''title'', Str ''t'')]
      else Obj [(''list'', Arr [Str ''p'', Str ''q''])])"

definition example_page :: world where
  "example_page = init_world (\<lambda>_ _. Inr None) example_contexts example_data"

definition attach_all :: "arg \<Rightarrow> node list \<Rightarrow> world \<Rightarrow> world" where
  \<comment> \<open>the decorator applied to each of the elements in turn, with no handle selector,
      the default class and the given event name\<close>
  "attach_all eventName ns w =
     fold (\<lambda>n w. attach_world (sortable w n Absent Absent eventName)) ns w"

definition example_bound :: world where
  \<comment> \<open>every member element of the page made sortable, notifying \<^verbatim>\<open>sorted\<close>\<close>
  "example_bound = attach_all (StrArg ''sorted'') [0, 1, 2, 3, 4, 5, 6] example_page"

definition example_two_lists :: world where
  \<comment> \<open>the members of \<^verbatim>\<open>list\<close> made sortable with the event name \<^verbatim>\<open>sorted\<close>, then the
      members of \<^verbatim>\<open>other\<close> with no event name\<close>
  "example_two_lists =
     attach_all Absent [4, 5] (attach_all (StrArg ''sorted'') [0, 1, 2, 3] example_page)"

definition new_event :: event where
  "new_event =
     \<lparr>defaultPrevented = False, propagationStopped = False, dropEffect = None,
      transferData = []\<rparr>"

definition dragging :: "node \<Rightarrow> world" where
  \<comment> \<open>the page after a drag has started on element \<open>n\<close>\<close>
  "dragging n = world_after (dragstartHandler example_bound n new_event)"

definition example_rendered_twice :: world where
  \<comment> \<open>the first member of \<^verbatim>\<open>list\<close> with both of its elements made sortable\<close>
  "example_rendered_twice = attach_all (StrArg ''sorted'') [0, 8] example_page"

definition highlighted_twin :: world where
  \<comment> \<open>a drag started on element 0 has entered element 8, which shows the same member\<close>
  "highlighted_twin =
     world_after
       (dragenterHandler
          (world_after (dragstartHandler example_rendered_twice 0 new_event)) 8 new_event)"

definition valid_token :: "string \<Rightarrow> bool" where
  \<comment> \<open>Modelled from the spec: the rendering surface's "class-list add/remove" takes a
      token that is not empty and has no ASCII whitespace, and throws for any other; the
      class lists of the model leave that throw out.\<close>
  "valid_token s =
     (s \<noteq> [] \<and>
      set s \<inter> {CHR '' '', CHR 0x09, CHR 0x0A, CHR 0x0C, CHR 0x0D} = {})"

definition module_only :: "world \<Rightarrow> bool" where
  \<comment> \<open>the listeners in the model are those \<^verbatim>\<open>sortable\<close> registers\<close>
  "module_only w = (\<forall>(n, ty, h) \<in> listeners w. (n, ty, h) \<in> module_listeners n)"

definition session_consistent :: "world \<Rightarrow> bool" where
  \<comment> \<open>once an owner is recorded, a source key and a source collection are\<close>
  "session_consistent w =
     (ractive w = None \<or> (sourceKeypath w \<noteq> None \<and> sourceArray w \<noteq> None))"

section \<open>Reading and writing along a keypath\<close>

lemma get_in_Undefined [simp]: "get_in Undefined p = Undefined"
  by (cases p) simp_all

lemma get_in_append: "get_in d (p @ q) = get_in (get_in d p) q"
proof (induction p arbitrary: d)
  case Nil
  show ?case by simp
next
  case (Cons s p)
  show ?case
    by (cases d) (simp_all add: Cons.IH split: option.splits)
qed

text \<open>Where a keypath leads to an array, writing there and reading back gives what was
  written.\<close>

lemma get_in_modify_in:
  "get_in d p = Arr xs \<Longrightarrow> get_in (modify_in f d p) p = f (Arr xs)"
proof (induction p arbitrary: d)
  case Nil
  then show ?case by simp
next
  case (Cons s p)
  show ?case
  proof (cases d)
    case (Obj kvs)
    with Cons.prems obtain v where v: "map_of kvs s = Some v" "get_in v p = Arr xs"
      by (auto split: option.splits)
    with Obj Cons.IH [OF v(2)] show ?thesis
      by (simp add: update_conv')
  next
    case (Arr ys)
    with Cons.prems obtain i where i: "parse_index s = Some i" "i < length ys"
      "get_in (ys ! i) p = Arr xs"
      by (auto split: option.splits if_splits)
    with Arr Cons.IH [OF i(3)] show ?thesis
      by simp
  qed (use Cons.prems in simp_all)
qed

lemma parse_index_0: "parse_index ''0'' = Some 0"
  by (simp add: parse_index_def digit_val_def)

lemma parse_index_2: "parse_index ''2'' = Some 2"
  by (simp add: parse_index_def digit_val_def)

lemma parse_index_3: "parse_index ''3'' = Some 3"
  by (simp add: parse_index_def digit_val_def)

section \<open>The handlers, branch by branch\<close>

lemma splice_Arr:
  "get_in (data w r) k = Arr xs \<Longrightarrow>
   ractive_splice w r k seg n items =
     (None,
      w\<lparr>data := (data w)
           (r := modify_in (\<lambda>_. Arr (array_splice xs (to_index seg) n items)) (data w r) k),
        calls := calls w @ [Splice r k seg n items]\<rparr>)"
  by (simp add: ractive_splice_def)

lemma reorder_array:
  assumes "get_in (data w (ctx_ractive ctx)) (resolve_parent ctx) = Arr xs"
  shows "thrown (reorder w ctx sk e) = None"
    and "event_after (reorder w ctx sk e) = e"
    and "calls (world_after (reorder w ctx sk e)) =
       calls w @
       [Splice (ctx_ractive ctx) (resolve_parent ctx) (last_segment sk) 1 [],
        Splice (ctx_ractive ctx) (resolve_parent ctx) (last_segment (resolve ctx)) 0
          [get_in (data w (ctx_ractive ctx)) sk]] @
       (case eventNameToFire w of
          StrArg name \<Rightarrow> [Fire (ctx_ractive ctx) name ctx (resolve ctx)]
        | _ \<Rightarrow> [])"
    and "sourceKeypath (world_after (reorder w ctx sk e)) = Some (resolve ctx)"
    and "get_in (data (world_after (reorder w ctx sk e)) (ctx_ractive ctx)) (resolve_parent ctx) =
       Arr (array_splice (array_splice xs (to_index (last_segment sk)) 1 [])
              (to_index (last_segment (resolve ctx))) 0 [get_in (data w (ctx_ractive ctx)) sk])"
  using assms
  by (simp_all add: reorder_def splice_Arr get_in_modify_in ractive_get_def splitKeypath_def
      ractive_fire_def Let_def split: arg.splits)

lemma dragenter_reorder:
  assumes "getNodeToMove w this = Inr me"
    and "ractive w = Some (ctx_ractive (getContext w me))"
    and "sourceArray w = Some (resolve_parent (getContext w me))"
    and "sourceKeypath w = Some sk"
    and "sk \<noteq> resolve (getContext w me)"
  shows "dragenterHandler w this e =
           reorder w (getContext w me) sk
             (e\<lparr>defaultPrevented := True, dropEffect := Some ''move''\<rparr>)"
  using assms by (auto simp add: dragenterHandler_def Let_def)

lemma splice_data_other:
  "ractive_splice w r k seg n items = (err, w') \<Longrightarrow> r' \<noteq> r \<Longrightarrow> data w' r' = data w r'"
  by (auto simp add: ractive_splice_def split: jsval.splits)

lemma reorder_data_other:
  assumes "r' \<noteq> ctx_ractive ctx"
  shows "data (world_after (reorder w ctx sk e)) r' = data w r'"
proof -
  obtain err1 w1 where s1:
    "ractive_splice w (ctx_ractive ctx) (resolve_parent ctx) (last_segment (splitKeypath sk)) 1 []
       = (err1, w1)"
    by (cases "ractive_splice w (ctx_ractive ctx) (resolve_parent ctx)
                 (last_segment (splitKeypath sk)) 1 []")
  let ?w2 = "w1\<lparr>sourceKeypath := Some (resolve ctx)\<rparr>"
  obtain err2 w3 where s2:
    "ractive_splice ?w2 (ctx_ractive ctx) (resolve_parent ctx)
       (last_segment (splitKeypath (resolve ctx))) 0 [ractive_get w (ctx_ractive ctx) sk]
       = (err2, w3)"
    by (cases "ractive_splice ?w2 (ctx_ractive ctx) (resolve_parent ctx)
       (last_segment (splitKeypath (resolve ctx))) 0 [ractive_get w (ctx_ractive ctx) sk]")
  have d1: "data w1 r' = data w r'"
    using splice_data_other [OF s1 assms] .
  have d3: "data w3 r' = data w r'"
    using splice_data_other [OF s2 assms] d1 by simp
  show ?thesis
    using s1 s2 d1 d3
    by (simp add: reorder_def Let_def ractive_fire_def split: option.splits arg.splits)
qed

lemma dragstart_array:
  assumes "getNodeToMove w this = Inr me"
    and "isArray (context_get_parent w (getContext w me))"
  shows "dragstartHandler w this e =
     \<lparr>thrown = None,
      world_after = w\<lparr>sourceKeypath := Some (resolve (getContext w me)),
                     sourceArray := Some (resolve_parent (getContext w me)),
                     ractive := Some (ctx_ractive (getContext w me))\<rparr>,
      event_after = e\<lparr>transferData := AList.update ''foo'' ''true'' (transferData e),
                     propagationStopped := True\<rparr>\<rparr>"
  using assms by (simp add: dragstartHandler_def Let_def context_get_parent_def)

lemma find_snoc:
  "find P (xs @ [x]) = (case find P xs of None \<Rightarrow> (if P x then Some x else None) | Some y \<Rightarrow> Some y)"
  by (induction xs) simp_all

lemma attach_thrown_sortable:
  "attach_thrown (sortable w node sel tc ev) =
     (case handle_for w node sel of
        Inl err \<Rightarrow> Some err
      | Inr None \<Rightarrow> Some TypeError
      | Inr (Some h) \<Rightarrow> None)"
  by (simp add: sortable_def Let_def split: sum.splits option.splits)

lemma handle_for_empty_selector: "handle_for w node (StrArg '''') = Inl SyntaxError"
  by (simp add: handle_for_def not_nullish_def query_def)

lemma sortable_rejected:
  "handle_for w node sel = Inl err \<Longrightarrow>
   sortable w node sel tc ev =
     \<lparr>attach_thrown = Some err, attach_world = w, teardown_node = None\<rparr>"
  by (simp add: sortable_def)

lemma lookup_after_attach:
  assumes "handle_for w node sel = Inr (Some h)"
    and "getNodeToMove w h = Inl TypeError"
  shows "getNodeToMove (attach_world (sortable w node sel tc ev)) h = Inr node"
  using assms
  by (simp add: sortable_def getNodeToMove_def Let_def find_snoc split: option.splits)

lemma dragstart_not_array:
  assumes "getNodeToMove w this = Inr me"
    and "\<not> isArray (context_get_parent w (getContext w me))"
  shows "dragstartHandler w this e =
     \<lparr>thrown = Some InvalidBinding,
      world_after = w\<lparr>sourceKeypath := Some (resolve (getContext w me)),
                     sourceArray := Some (resolve_parent (getContext w me))\<rparr>,
      event_after = e\<rparr>"
  using assms by (simp add: dragstartHandler_def Let_def context_get_parent_def)

lemma only_dragstart_throws_InvalidBinding:
  "thrown (run_handler h w n e) = Some InvalidBinding \<Longrightarrow> h = DragstartHandler"
proof (cases h)
  case DragenterHandler
  assume t: "thrown (run_handler h w n e) = Some InvalidBinding"
  have "thrown (dragenterHandler w n e) \<noteq> Some InvalidBinding"
    by (auto simp add: dragenterHandler_def reorder_def ractive_splice_def getNodeToMove_def
        Let_def split: sum.splits option.splits prod.splits arg.splits jsval.splits if_splits)
  with t DragenterHandler show ?thesis by (simp add: run_handler_def)
next
  case RemoveTargetClass
  assume "thrown (run_handler h w n e) = Some InvalidBinding"
  with RemoveTargetClass show ?thesis
    by (auto simp add: run_handler_def removeTargetClass_def getNodeToMove_def
        split: sum.splits option.splits)
next
  case PreventDefault
  assume "thrown (run_handler h w n e) = Some InvalidBinding"
  with PreventDefault show ?thesis
    by (simp add: run_handler_def preventDefault_def)
qed simp

lemma module_only_init: "module_only (init_world qs ctx d)"
  by (simp add: module_only_def init_world_def)

lemma module_only_sortable:
  "module_only w \<Longrightarrow> module_only (attach_world (sortable w n sel tc ev))"
  by (auto simp add: module_only_def sortable_def Let_def module_listeners_def
      split: sum.splits option.splits)

lemma module_only_attach_all: "module_only w \<Longrightarrow> module_only (attach_all ev ns w)"
  unfolding attach_all_def
  by (induction ns arbitrary: w) (simp_all add: module_only_sortable)

lemma module_only_example_bound: "module_only example_bound"
  by (simp add: example_bound_def example_page_def module_only_attach_all module_only_init)

lemma module_only_dragend:
  assumes "module_only w" and "ty = Dragend \<or> ty = Drop"
  shows "(n, ty, h) \<in> listeners w \<Longrightarrow> h = RemoveTargetClass"
  using assms by (auto simp add: module_only_def module_listeners_def)

lemma dispatch_removeTargetClass:
  assumes "module_only w"
    and "ty = Dragend \<or> ty = Drop"
    and "(this, ty, RemoveTargetClass) \<in> listeners w"
  shows "dispatch w this ty e = removeTargetClass w this e"
proof -
  have "listeners_on w this ty = [RemoveTargetClass]"
    using module_only_dragend [OF assms(1,2), of this] assms(3)
    by (auto simp add: listeners_on_def)
  then show ?thesis
    by (simp add: dispatch_def run_handler_def removeTargetClass_def split: sum.splits)
qed

lemma listeners_on_teardown:
  assumes "module_only w"
  shows "listeners_on (teardown h w) h ty = []"
  using assms
  by (auto simp add: listeners_on_def teardown_def module_only_def filter_empty_conv)

lemma listeners_sortable:
  "listeners (attach_world (sortable w n Absent tc ev)) = listeners w \<union> module_listeners n"
  by (simp add: sortable_def handle_for_def not_nullish_def Let_def)

lemma listeners_attach_all:
  "listeners (attach_all ev ns w) = listeners w \<union> (\<Union>n \<in> set ns. module_listeners n)"
  unfolding attach_all_def
  by (induction ns arbitrary: w) (auto simp add: listeners_sortable)

section \<open>The session variables\<close>

text \<open>
  Attaching, tearing down and every handler keep the session variables consistent, from
  the loading of the module on. So the branch of \<open>dragenterHandler\<close> for an undefined
  source key, which the owner check lets through only when an owner is recorded, is never
  taken.
\<close>

lemma session_consistent_init: "session_consistent (init_world qs ctx d)"
  by (simp add: session_consistent_def init_world_def)

lemma session_consistent_sortable:
  "session_consistent w \<Longrightarrow> session_consistent (attach_world (sortable w n sel tc ev))"
  by (simp add: session_consistent_def sortable_def Let_def split: sum.splits option.splits)

lemma session_consistent_teardown:
  "session_consistent w \<Longrightarrow> session_consistent (teardown n w)"
  by (simp add: session_consistent_def teardown_def)

lemma splice_session:
  "ractive_splice w r k seg n items = (err, w') \<Longrightarrow>
   ractive w' = ractive w \<and> sourceKeypath w' = sourceKeypath w \<and> sourceArray w' = sourceArray w"
  by (auto simp add: ractive_splice_def split: jsval.splits)

lemma reorder_session:
  "session_consistent w \<Longrightarrow> session_consistent (world_after (reorder w ctx sk e))"
proof -
  assume ok: "session_consistent w"
  obtain err1 w1 where s1:
    "ractive_splice w (ctx_ractive ctx) (resolve_parent ctx) (last_segment (splitKeypath sk)) 1 []
       = (err1, w1)"
    by (cases "ractive_splice w (ctx_ractive ctx) (resolve_parent ctx)
                 (last_segment (splitKeypath sk)) 1 []")
  let ?w2 = "w1\<lparr>sourceKeypath := Some (resolve ctx)\<rparr>"
  obtain err2 w3 where s2:
    "ractive_splice ?w2 (ctx_ractive ctx) (resolve_parent ctx)
       (last_segment (splitKeypath (resolve ctx))) 0 [ractive_get w (ctx_ractive ctx) sk]
       = (err2, w3)"
    by (cases "ractive_splice ?w2 (ctx_ractive ctx) (resolve_parent ctx)
       (last_segment (splitKeypath (resolve ctx))) 0 [ractive_get w (ctx_ractive ctx) sk]")
  from splice_session [OF s1] ok have "session_consistent w1"
    by (simp add: session_consistent_def)
  moreover from splice_session [OF s2] splice_session [OF s1] ok have "session_consistent w3"
    by (auto simp add: session_consistent_def)
  ultimately show ?thesis
    using s1 s2
    by (simp add: reorder_def Let_def ractive_fire_def session_consistent_def
        split: option.splits arg.splits)
qed

lemma session_consistent_run_handler:
  "session_consistent w \<Longrightarrow> session_consistent (world_after (run_handler h w n e))"
proof (cases h)
  case DragstartHandler
  assume "session_consistent w"
  with DragstartHandler show ?thesis
    by (simp add: run_handler_def dragstartHandler_def Let_def session_consistent_def
        split: sum.splits)
next
  case DragenterHandler
  assume ok: "session_consistent w"
  have "session_consistent (world_after (dragenterHandler w n e))"
    using ok reorder_session [OF ok]
    by (auto simp add: dragenterHandler_def Let_def session_consistent_def
        split: sum.splits option.splits)
  with DragenterHandler show ?thesis by (simp add: run_handler_def)
next
  case RemoveTargetClass
  assume "session_consistent w"
  with RemoveTargetClass show ?thesis
    by (simp add: run_handler_def removeTargetClass_def session_consistent_def
        split: sum.splits)
next
  case PreventDefault
  assume "session_consistent w"
  with PreventDefault show ?thesis
    by (simp add: run_handler_def preventDefault_def)
qed

lemma session_consistent_source:
  "session_consistent w \<Longrightarrow> ractive w = Some r \<Longrightarrow> \<exists>sk. sourceKeypath w = Some sk"
  by (auto simp add: session_consistent_def)

section \<open>The example page\<close>

lemmas example_defs = example_bound_def attach_all_def example_page_def
  init_world_def sortable_def handle_for_def not_nullish_def or_else_def Let_def

lemma example_bound_fields:
  "nodeMapping example_bound =
     map (\<lambda>n. \<lparr>nodeToMove = n, draggableNode = Some n\<rparr>) [0, 1, 2, 3, 4, 5, 6]"
  "getContext example_bound = example_contexts"
  "data example_bound = example_data"
  "ractive example_bound = None"
  "sourceKeypath example_bound = None"
  "sourceArray example_bound = None"
  "eventNameToFire example_bound = StrArg ''sorted''"
  "calls example_bound = []"
  "classList example_bound = (\<lambda>_. {})"
  by (simp_all add: example_defs)

lemma example_bound_lookup:
  "n < 7 \<Longrightarrow> getNodeToMove example_bound n = Inr n"
  "7 \<le> n \<Longrightarrow> getNodeToMove example_bound n = Inl TypeError"
  by (auto simp add: getNodeToMove_def example_bound_fields)

lemma dragging_eq:
  "n < 7 \<Longrightarrow> dragging n =
     example_bound\<lparr>sourceKeypath := Some (resolve (example_contexts n)),
                   sourceArray := Some (resolve_parent (example_contexts n)),
                   ractive := Some (ctx_ractive (example_contexts n))\<rparr>"
  unfolding dragging_def
  apply (subst dragstart_array [where me = n])
  apply (simp_all add: example_bound_lookup example_bound_fields context_get_parent_def)
  apply (auto simp add: example_contexts_def example_data_def resolve_parent_def isArray_def parse_index_def digit_val_def)
  done

lemma dragging_lookup:
  "n < 7 \<Longrightarrow> m < 7 \<Longrightarrow> getNodeToMove (dragging n) m = Inr m"
  using example_bound_lookup(1) [of m]
  by (simp add: dragging_eq getNodeToMove_def)

lemma dragging_0_fields:
  "getContext (dragging 0) = example_contexts"
  "data (dragging 0) = example_data"
  "ractive (dragging 0) = Some 0"
  "sourceKeypath (dragging 0) = Some [''list'', ''0'']"
  "sourceArray (dragging 0) = Some [''list'']"
  "eventNameToFire (dragging 0) = StrArg ''sorted''"
  "calls (dragging 0) = []"
  "classList (dragging 0) = (\<lambda>_. {})"
  "targetClass_of (dragging 0) 0 = Some ''droptarget''"
  by (simp_all add: dragging_eq example_bound_fields example_contexts_def resolve_def
      resolve_parent_def) (simp add: example_defs)

lemma example_two_lists_fields:
  "nodeMapping example_two_lists =
     map (\<lambda>n. \<lparr>nodeToMove = n, draggableNode = Some n\<rparr>) [0, 1, 2, 3, 4, 5]"
  "getContext example_two_lists = example_contexts"
  "data example_two_lists = example_data"
  "eventNameToFire example_two_lists = Absent"
  "calls example_two_lists = []"
  by (simp_all add: example_two_lists_def example_defs)

lemma example_rendered_twice_fields:
  "nodeMapping example_rendered_twice =
     map (\<lambda>n. \<lparr>nodeToMove = n, draggableNode = Some n\<rparr>) [0, 8]"
  "getContext example_rendered_twice = example_contexts"
  "data example_rendered_twice = example_data"
  "ractive example_rendered_twice = None"
  "classList example_rendered_twice = (\<lambda>_. {})"
  "targetClass_of example_rendered_twice 0 = Some ''droptarget''"
  "targetClass_of example_rendered_twice 8 = Some ''droptarget''"
  by (simp_all add: example_rendered_twice_def example_defs)

lemma example_rendered_twice_module_only: "module_only example_rendered_twice"
  by (simp add: example_rendered_twice_def example_page_def module_only_attach_all
      module_only_init)

lemma example_rendered_twice_listeners: "module_listeners 0 \<subseteq> listeners example_rendered_twice"
  unfolding example_rendered_twice_def listeners_attach_all by auto

lemma highlighted_twin_eq:
  "highlighted_twin =
     example_rendered_twice
       \<lparr>sourceKeypath := Some [''list'', ''0''], sourceArray := Some [''list''],
        ractive := Some 0, classList := (\<lambda>_. {})(8 := {''droptarget''})\<rparr>"
proof -
  let ?w1 = "example_rendered_twice
       \<lparr>sourceKeypath := Some [''list'', ''0''], sourceArray := Some [''list''],
        ractive := Some 0\<rparr>"
  have l0: "getNodeToMove example_rendered_twice 0 = Inr 0"
    by (simp add: getNodeToMove_def example_rendered_twice_fields)
  have "isArray (context_get_parent example_rendered_twice (getContext example_rendered_twice 0))"
    by (simp add: context_get_parent_def example_rendered_twice_fields example_contexts_def
        example_data_def resolve_parent_def isArray_def)
  from dragstart_array [OF l0 this, of new_event]
  have start: "world_after (dragstartHandler example_rendered_twice 0 new_event) = ?w1"
    by (simp add: example_rendered_twice_fields example_contexts_def resolve_def
        resolve_parent_def)
  have l8: "getNodeToMove ?w1 8 = Inr 8"
    by (simp add: getNodeToMove_def example_rendered_twice_fields)
  show ?thesis
    unfolding highlighted_twin_def start
    by (simp add: dragenterHandler_def l8 Let_def example_rendered_twice_fields
        example_contexts_def resolve_def resolve_parent_def class_token_def)
qed

lemma highlighted_twin_fields:
  "getNodeToMove highlighted_twin 0 = Inr 0"
  "module_only highlighted_twin"
  "(0, Dragend, RemoveTargetClass) \<in> listeners highlighted_twin"
  "targetClass_of highlighted_twin 0 = Some ''droptarget''"
  "classList highlighted_twin 8 = {''droptarget''}"
  "classList highlighted_twin 0 = {}"
  "ractive highlighted_twin = Some 0"
  "sourceKeypath highlighted_twin = Some [''list'', ''0'']"
  "sourceArray highlighted_twin = Some [''list'']"
  using example_rendered_twice_module_only example_rendered_twice_listeners
  by (auto simp add: highlighted_twin_eq getNodeToMove_def example_rendered_twice_fields
      module_only_def module_listeners_def)

lemma valid_token_droptarget: "valid_token ''droptarget''"
  by (simp add: valid_token_def)

section \<open>Moving an item\<close>

text \<open>
  Claim C1. The source collection holds \<open>[a, b, c, d]\<close>. A drag started on the element of
  index 0 and entering the element of index 2 leaves the collection \<open>[b, c, a, d]\<close>; a drag
  started on the element of index 3 and entering the element of index 0 leaves it
  \<open>[d, a, b, c]\<close>. This holds for any values \<open>a\<close>, \<open>b\<close>, \<open>c\<close>, \<open>d\<close>, any instance \<open>r\<close>
  and any keypath \<open>list\<close> of the collection, the three elements being registered handles
  of the one instance; neither handler throws.
\<close>

theorem order_preserving_move:
  assumes h0: "getNodeToMove w h0 = Inr m0"
    and h2: "getNodeToMove w h2 = Inr m2"
    and h3: "getNodeToMove w h3 = Inr m3"
    and c0: "getContext w m0 = \<lparr>ctx_ractive = r, ctx_keypath = list @ [''0'']\<rparr>"
    and c2: "getContext w m2 = \<lparr>ctx_ractive = r, ctx_keypath = list @ [''2'']\<rparr>"
    and c3: "getContext w m3 = \<lparr>ctx_ractive = r, ctx_keypath = list @ [''3'']\<rparr>"
    and d: "get_in (data w r) list = Arr [a, b, c, d]"
  shows "(let started = dragstartHandler w h0 e;
              entered = dragenterHandler (world_after started) h2 e'
          in thrown started = None \<and> thrown entered = None \<and>
             get_in (data (world_after entered) r) list = Arr [b, c, a, d]) \<and>
         (let started = dragstartHandler w h3 e;
              entered = dragenterHandler (world_after started) h0 e'
          in thrown started = None \<and> thrown entered = None \<and>
             get_in (data (world_after entered) r) list = Arr [d, a, b, c])"
proof -
  have move: "thrown (dragstartHandler w hs e) = None \<and>
      thrown (dragenterHandler (world_after (dragstartHandler w hs e)) ht e') = None \<and>
      get_in (data (world_after
          (dragenterHandler (world_after (dragstartHandler w hs e)) ht e')) r) list =
        Arr (array_splice (array_splice [a, b, c, d] (to_index (Some i)) 1 [])
               (to_index (Some j)) 0 [get_in (Arr [a, b, c, d]) [i]])"
    if hs: "getNodeToMove w hs = Inr ms" and ht: "getNodeToMove w ht = Inr mt"
      and cs: "getContext w ms = \<lparr>ctx_ractive = r, ctx_keypath = list @ [i]\<rparr>"
      and ct: "getContext w mt = \<lparr>ctx_ractive = r, ctx_keypath = list @ [j]\<rparr>"
      and ij: "i \<noteq> j"
    for hs ht ms mt i j
  proof -
    let ?w1 = "w\<lparr>sourceKeypath := Some (list @ [i]), sourceArray := Some list,
                 ractive := Some r\<rparr>"
    let ?e1 = "e'\<lparr>defaultPrevented := True, dropEffect := Some ''move''\<rparr>"
    have start: "dragstartHandler w hs e =
       \<lparr>thrown = None, world_after = ?w1,
        event_after = e\<lparr>transferData := AList.update ''foo'' ''true'' (transferData e),
                       propagationStopped := True\<rparr>\<rparr>"
      using dragstart_array [OF hs, of e] cs d
      by (simp add: context_get_parent_def resolve_parent_def resolve_def isArray_def)
    have ht1: "getNodeToMove ?w1 ht = Inr mt"
      using ht by (simp add: getNodeToMove_def)
    have enter: "dragenterHandler ?w1 ht e' = reorder ?w1 (getContext ?w1 mt) (list @ [i]) ?e1"
      by (rule dragenter_reorder [OF ht1])
        (use ct ij in \<open>simp_all add: resolve_parent_def resolve_def\<close>)
    have arr: "get_in (data ?w1 (ctx_ractive (getContext ?w1 mt)))
                 (resolve_parent (getContext ?w1 mt)) = Arr [a, b, c, d]"
      using ct d by (simp add: resolve_parent_def)
    show ?thesis
      using reorder_array(1,5) [OF arr, of "list @ [i]" ?e1] ct d
      by (simp add: start enter resolve_parent_def resolve_def last_segment_def get_in_append)
  qed
  show ?thesis
    using move [OF h0 h2 c0 c2] move [OF h3 h0 c3 c0]
    by (simp add: Let_def array_splice_def to_index_def
        parse_index_0 parse_index_2 parse_index_3)
qed

theorem order_preserving_move_witness:
  "getNodeToMove example_bound 0 = Inr 0 \<and>
   getNodeToMove example_bound 2 = Inr 2 \<and>
   getNodeToMove example_bound 3 = Inr 3 \<and>
   getContext example_bound 0 = \<lparr>ctx_ractive = 0, ctx_keypath = [''list''] @ [''0'']\<rparr> \<and>
   getContext example_bound 2 = \<lparr>ctx_ractive = 0, ctx_keypath = [''list''] @ [''2'']\<rparr> \<and>
   getContext example_bound 3 = \<lparr>ctx_ractive = 0, ctx_keypath = [''list''] @ [''3'']\<rparr> \<and>
   get_in (data example_bound 0) [''list''] = Arr [Str ''a'', Str ''b'', Str ''c'', Str ''d''] \<and>
   get_in (data (world_after (dragenterHandler
       (world_after (dragstartHandler example_bound 0 new_event)) 2 new_event)) 0) [''list'']
     = Arr [Str ''b'', Str ''c'', Str ''a'', Str ''d''] \<and>
   get_in (data (world_after (dragenterHandler
       (world_after (dragstartHandler example_bound 3 new_event)) 0 new_event)) 0) [''list'']
     = Arr [Str ''d'', Str ''a'', Str ''b'', Str ''c'']"
proof -
  have h: "getNodeToMove example_bound 0 = Inr 0" "getNodeToMove example_bound 2 = Inr 2"
    "getNodeToMove example_bound 3 = Inr 3"
    by (simp_all add: example_bound_lookup)
  have c:
    "getContext example_bound 0 = \<lparr>ctx_ractive = 0, ctx_keypath = [''list''] @ [''0'']\<rparr>"
    "getContext example_bound 2 = \<lparr>ctx_ractive = 0, ctx_keypath = [''list''] @ [''2'']\<rparr>"
    "getContext example_bound 3 = \<lparr>ctx_ractive = 0, ctx_keypath = [''list''] @ [''3'']\<rparr>"
    by (simp_all add: example_bound_fields example_contexts_def)
  have d: "get_in (data example_bound 0) [''list''] =
      Arr [Str ''a'', Str ''b'', Str ''c'', Str ''d'']"
    by (simp add: example_bound_fields example_data_def)
  show ?thesis
    using order_preserving_move [OF h c d, of new_event new_event] h c d
    by (simp add: Let_def)
qed

text \<open>
  Claim C2. A drag-enter that reorders (a registered handle whose element has the
  session's owner and collection, at a position key other than the session's source key,
  the collection being an array) issues exactly two mutations, in this order: the removal
  of one element at the index of the final segment of the source key as it was before
  the handler ran, then the insertion of one value at the index of the final segment of
  the target's key, which by then is the session's source key. The value inserted is
  the one read at the old source key before the removal. A notification, when one is
  configured, comes after both.
\<close>

theorem remove_then_insert:
  assumes "getNodeToMove w this = Inr me"
    and "ractive w = Some (ctx_ractive (getContext w me))"
    and "sourceArray w = Some (resolve_parent (getContext w me))"
    and "sourceKeypath w = Some sk"
    and "sk \<noteq> resolve (getContext w me)"
    and "get_in (data w (ctx_ractive (getContext w me))) (resolve_parent (getContext w me)) = Arr xs"
  shows "(let ctx = getContext w me;
              r = ctx_ractive ctx;
              targetArray = resolve_parent ctx;
              out = dragenterHandler w this e
          in thrown out = None \<and>
             sourceKeypath (world_after out) = Some (resolve ctx) \<and>
             calls (world_after out) =
               calls w @
               [Splice r targetArray (last_segment (splitKeypath sk)) 1 [],
                Splice r targetArray (last_segment (splitKeypath (resolve ctx))) 0
                  [ractive_get w r sk]] @
               (case eventNameToFire w of
                  StrArg name \<Rightarrow> [Fire r name ctx (splitKeypath (resolve ctx))]
                | _ \<Rightarrow> []) \<and>
             get_in (data (world_after out) r) targetArray =
               Arr (array_splice (array_splice xs (to_index (last_segment (splitKeypath sk))) 1 [])
                      (to_index (last_segment (splitKeypath (resolve ctx)))) 0
                      [ractive_get w r sk]))"
  using reorder_array [OF assms(6), of sk "e\<lparr>defaultPrevented := True, dropEffect := Some ''move''\<rparr>"]
  by (simp add: dragenter_reorder [OF assms(1-5)] Let_def splitKeypath_def ractive_get_def
      split: arg.splits)

theorem remove_then_insert_witness:
  "getNodeToMove (dragging 0) 2 = Inr 2 \<and>
   ractive (dragging 0) = Some (ctx_ractive (getContext (dragging 0) 2)) \<and>
   sourceArray (dragging 0) = Some (resolve_parent (getContext (dragging 0) 2)) \<and>
   sourceKeypath (dragging 0) = Some [''list'', ''0''] \<and>
   [''list'', ''0''] \<noteq> resolve (getContext (dragging 0) 2) \<and>
   get_in (data (dragging 0) 0) [''list''] = Arr [Str ''a'', Str ''b'', Str ''c'', Str ''d''] \<and>
   thrown (dragenterHandler (dragging 0) 2 new_event) = None \<and>
   sourceKeypath (world_after (dragenterHandler (dragging 0) 2 new_event)) =
     Some [''list'', ''2''] \<and>
   calls (world_after (dragenterHandler (dragging 0) 2 new_event)) =
     [Splice 0 [''list''] (Some ''0'') 1 [],
      Splice 0 [''list''] (Some ''2'') 0 [Str ''a''],
      Fire 0 ''sorted'' \<lparr>ctx_ractive = 0, ctx_keypath = [''list'', ''2'']\<rparr> [''list'', ''2'']] \<and>
   get_in (data (world_after (dragenterHandler (dragging 0) 2 new_event)) 0) [''list''] =
     Arr [Str ''b'', Str ''c'', Str ''a'', Str ''d'']"
proof -
  have 1: "getNodeToMove (dragging 0) 2 = Inr 2"
    by (simp add: dragging_lookup)
  have 2: "ractive (dragging 0) = Some (ctx_ractive (getContext (dragging 0) 2))"
    and 3: "sourceArray (dragging 0) = Some (resolve_parent (getContext (dragging 0) 2))"
    and 4: "sourceKeypath (dragging 0) = Some [''list'', ''0'']"
    and 5: "[''list'', ''0''] \<noteq> resolve (getContext (dragging 0) 2)"
    by (simp_all add: dragging_0_fields example_contexts_def resolve_parent_def resolve_def)
  have 6: "get_in (data (dragging 0) (ctx_ractive (getContext (dragging 0) 2)))
      (resolve_parent (getContext (dragging 0) 2)) = Arr [Str ''a'', Str ''b'', Str ''c'', Str ''d'']"
    by (simp add: dragging_0_fields example_contexts_def example_data_def resolve_parent_def)
  show ?thesis
    using remove_then_insert [OF 1 2 3 4 5 6, of new_event] 1 2 3 4 5 6
    by (simp add: Let_def dragging_0_fields example_contexts_def example_data_def
        resolve_parent_def resolve_def splitKeypath_def last_segment_def ractive_get_def
        to_index_def parse_index_0 parse_index_2 array_splice_def)
qed

section \<open>Drag-enters that move nothing\<close>



text \<open>
  Claim C4. A drag-enter on a registered handle whose element resolves to a collection
  other than the session's source collection leaves the whole world as it was, both
  collections included; only the native event has its default prevented.
\<close>

theorem other_collection_ignored:
  assumes "getNodeToMove w this = Inr me"
    and "sourceArray w \<noteq> Some (resolve_parent (getContext w me))"
  shows "dragenterHandler w this e =
           \<lparr>thrown = None, world_after = w, event_after = e\<lparr>defaultPrevented := True\<rparr>\<rparr>"
  using assms by (auto simp add: dragenterHandler_def Let_def)

theorem other_collection_ignored_witness:
  "getNodeToMove (dragging 0) 4 = Inr 4 \<and>
   sourceArray (dragging 0) \<noteq> Some (resolve_parent (getContext (dragging 0) 4)) \<and>
   dragenterHandler (dragging 0) 4 new_event =
     \<lparr>thrown = None, world_after = dragging 0,
      event_after = new_event\<lparr>defaultPrevented := True\<rparr>\<rparr>"
proof -
  have 1: "getNodeToMove (dragging 0) 4 = Inr 4"
    by (simp add: dragging_lookup)
  have 2: "sourceArray (dragging 0) \<noteq> Some (resolve_parent (getContext (dragging 0) 4))"
    by (simp add: dragging_0_fields example_contexts_def resolve_parent_def)
  show ?thesis
    using other_collection_ignored [OF 1 2, of new_event] 1 2 by simp
qed

text \<open>
  Claim C5. A drag-enter on a registered handle whose element belongs to another
  instance than the session's owner throws nothing and leaves the whole world as it
  was. Moreover no handler of the module, on any element, changes the data of an
  instance \<open>r'\<close> that is not the session's owner.
\<close>

theorem other_owner_ignored:
  assumes "getNodeToMove w this = Inr me"
    and "ractive w \<noteq> Some (ctx_ractive (getContext w me))"
  shows "dragenterHandler w this e =
           \<lparr>thrown = None, world_after = w, event_after = e\<lparr>defaultPrevented := True\<rparr>\<rparr> \<and>
         (ractive w \<noteq> Some r' \<longrightarrow>
            data (world_after (run_handler h w that e')) r' = data w r')"
proof
  show "dragenterHandler w this e =
           \<lparr>thrown = None, world_after = w, event_after = e\<lparr>defaultPrevented := True\<rparr>\<rparr>"
    using assms by (auto simp add: dragenterHandler_def Let_def)
  show "ractive w \<noteq> Some r' \<longrightarrow> data (world_after (run_handler h w that e')) r' = data w r'"
  proof
    assume other: "ractive w \<noteq> Some r'"
    show "data (world_after (run_handler h w that e')) r' = data w r'"
    proof (cases h)
      case DragstartHandler
      then show ?thesis
        by (simp add: run_handler_def dragstartHandler_def Let_def split: sum.splits)
    next
      case DragenterHandler
      have "data (world_after (dragenterHandler w that e')) r' = data w r'"
        using other
        by (auto simp add: dragenterHandler_def Let_def split: sum.splits option.splits
            intro!: reorder_data_other)
      with DragenterHandler show ?thesis
        by (simp add: run_handler_def)
    next
      case RemoveTargetClass
      then show ?thesis
        by (simp add: run_handler_def removeTargetClass_def split: sum.splits)
    next
      case PreventDefault
      then show ?thesis
        by (simp add: run_handler_def preventDefault_def)
    qed
  qed
qed

theorem other_owner_ignored_witness:
  "getNodeToMove (dragging 0) 6 = Inr 6 \<and>
   ractive (dragging 0) \<noteq> Some (ctx_ractive (getContext (dragging 0) 6)) \<and>
   ractive (dragging 0) \<noteq> Some 1 \<and>
   dragenterHandler (dragging 0) 6 new_event =
     \<lparr>thrown = None, world_after = dragging 0,
      event_after = new_event\<lparr>defaultPrevented := True\<rparr>\<rparr> \<and>
   data (world_after (run_handler DragenterHandler (dragging 0) 2 new_event)) 1 =
     Obj [(''list'', Arr [Str ''p'', Str ''q''])]"
proof -
  have 1: "getNodeToMove (dragging 0) 6 = Inr 6"
    by (simp add: dragging_lookup)
  have 2: "ractive (dragging 0) \<noteq> Some (ctx_ractive (getContext (dragging 0) 6))"
    and 3: "ractive (dragging 0) \<noteq> Some 1"
    by (simp_all add: dragging_0_fields example_contexts_def)
  show ?thesis
    using other_owner_ignored [OF 1 2, of new_event 1 DragenterHandler 2 new_event] 1 2 3
    by (simp add: dragging_0_fields example_data_def)
qed

section \<open>Validation of the binding\<close>

text \<open>
  Claim C6. Let an element be made sortable whose context is not that of an array member
  (the value one level up is not an array), the handle being one that was not registered
  before. Attaching throws nothing, and does the same whatever the contexts and the data
  are: \<^verbatim>\<open>sortable\<close> reads neither. The first drag-start on the handle throws the error of the invalid binding, out of the handler
  and out of the dispatch of the native event, before the owner of a session is
  recorded. No other handler of the module ever throws this error, so it cannot occur
  before a drag-start.
\<close>

theorem invalid_binding_on_dragstart:
  assumes "handle_for w node sel = Inr (Some h)"
    and "getNodeToMove w h = Inl TypeError"
    and "\<not> isArray (context_get_parent w (getContext w node))"
  shows "(let attached = sortable w node sel tc ev;
              started = dragstartHandler (attach_world attached) h e
          in attach_thrown attached = None \<and>
             attach_thrown (sortable (w\<lparr>getContext := g, data := d\<rparr>) node sel tc ev) =
               attach_thrown attached \<and>
             thrown started = Some InvalidBinding \<and>
             ractive (world_after started) = ractive w \<and>
             dispatch (attach_world attached) h Dragstart e = started) \<and>
         (thrown (run_handler h' w' n' e') = Some InvalidBinding \<longrightarrow> h' = DragstartHandler)"
proof -
  let ?w = "attach_world (sortable w node sel tc ev)"
  have ok: "attach_thrown (sortable w node sel tc ev) = None"
    using assms(1) by (simp add: sortable_def Let_def)
  have same: "attach_thrown (sortable (w\<lparr>getContext := g, data := d\<rparr>) node sel tc ev) =
      attach_thrown (sortable w node sel tc ev)"
  proof -
    have "handle_for (w\<lparr>getContext := g, data := d\<rparr>) node sel = handle_for w node sel"
      by (simp add: handle_for_def query_def split: arg.splits)
    then show ?thesis
      by (simp add: attach_thrown_sortable)
  qed
  have lookup: "getNodeToMove ?w h = Inr node"
    by (rule lookup_after_attach [OF assms(1,2)])
  have frame: "getContext ?w = getContext w" "data ?w = data w" "ractive ?w = ractive w"
    by (simp_all add: sortable_def Let_def split: sum.splits option.splits)
  have "\<not> isArray (context_get_parent ?w (getContext ?w node))"
    using assms(3) by (simp add: frame context_get_parent_def)
  note start = dragstart_not_array [OF lookup this, of e]
  have "(h, Dragstart, DragstartHandler) \<in> listeners ?w"
    using assms(1) by (simp add: sortable_def Let_def module_listeners_def)
  then have "dispatch ?w h Dragstart e = dragstartHandler ?w h e"
    by (simp add: dispatch_def listeners_on_def run_handler_def start)
  with ok same start frame show ?thesis
    by (simp add: Let_def only_dragstart_throws_InvalidBinding)
qed

theorem invalid_binding_on_dragstart_witness:
  "handle_for example_bound 7 Absent = Inr (Some 7) \<and>
   getNodeToMove example_bound 7 = Inl TypeError \<and>
   \<not> isArray (context_get_parent example_bound (getContext example_bound 7)) \<and>
   attach_thrown (sortable example_bound 7 Absent Absent Absent) = None \<and>
   attach_thrown
     (sortable (example_bound\<lparr>getContext := example_contexts, data := (\<lambda>_. Null)\<rparr>)
        7 Absent Absent Absent) = None \<and>
   thrown (dragstartHandler (attach_world (sortable example_bound 7 Absent Absent Absent)) 7
             new_event) = Some InvalidBinding \<and>
   thrown (dispatch (attach_world (sortable example_bound 7 Absent Absent Absent)) 7 Dragstart
             new_event) = Some InvalidBinding \<and>
   thrown (run_handler DragstartHandler
             (attach_world (sortable example_bound 7 Absent Absent Absent)) 7 new_event)
     = Some InvalidBinding"
proof -
  have 1: "handle_for example_bound 7 Absent = Inr (Some 7)"
    by (simp add: handle_for_def not_nullish_def)
  have 2: "getNodeToMove example_bound 7 = Inl TypeError"
    by (simp add: example_bound_lookup)
  have 3: "\<not> isArray (context_get_parent example_bound (getContext example_bound 7))"
    by (simp add: context_get_parent_def example_bound_fields example_contexts_def
        example_data_def resolve_parent_def isArray_def)
  show ?thesis
    using invalid_binding_on_dragstart [OF 1 2 3, where tc = Absent and ev = Absent
        and e = new_event and g = example_contexts and d = "\<lambda>_. Null"
        and h' = DragstartHandler and n' = 7 and e' = new_event
        and w' = "attach_world (sortable example_bound 7 Absent Absent Absent)"] 1 2 3
    by (simp add: Let_def run_handler_def)
qed

section \<open>Notification\<close>

text \<open>
  Claim C7 asks that a reorder on a binding attached with an event name fires exactly
  one notification under the name configured for that binding. The module keeps the
  name in the one variable \<^verbatim>\<open>eventNameToFire\<close>, which every call of \<^verbatim>\<open>sortable\<close>
  overwrites, whereas the target class is stored per element. On the page where the
  members of \<^verbatim>\<open>list\<close> are attached with the name \<^verbatim>\<open>sorted\<close> and the members of
  \<^verbatim>\<open>other\<close> afterwards with no name, dragging the first member of \<^verbatim>\<open>list\<close> onto the
  third reorders the array and fires nothing: the calls received are the two splices
  only.
\<close>

theorem notify_name_overwritten:
  "(let started = dragstartHandler example_two_lists 0 new_event;
        entered = dragenterHandler (world_after started) 2 new_event
    in thrown started = None \<and> thrown entered = None \<and>
       get_in (data (world_after entered) 0) [''list''] =
         Arr [Str ''b'', Str ''c'', Str ''a'', Str ''d''] \<and>
       calls (world_after entered) =
         [Splice 0 [''list''] (Some ''0'') 1 [],
          Splice 0 [''list''] (Some ''2'') 0 [Str ''a'']])"
proof -
  let ?w1 = "example_two_lists\<lparr>sourceKeypath := Some [''list'', ''0''],
               sourceArray := Some [''list''], ractive := Some 0\<rparr>"
  let ?e1 = "new_event\<lparr>defaultPrevented := True, dropEffect := Some ''move''\<rparr>"
  let ?ctx = "\<lparr>ctx_ractive = 0, ctx_keypath = [''list'', ''2'']\<rparr>"
  have l0: "getNodeToMove example_two_lists 0 = Inr 0"
    and l2: "getNodeToMove ?w1 2 = Inr 2"
    by (simp_all add: getNodeToMove_def example_two_lists_fields)
  have "isArray (context_get_parent example_two_lists (getContext example_two_lists 0))"
    by (simp add: context_get_parent_def example_two_lists_fields example_contexts_def
        example_data_def resolve_parent_def isArray_def)
  from dragstart_array [OF l0 this, of new_event]
  have start: "thrown (dragstartHandler example_two_lists 0 new_event) = None"
    "world_after (dragstartHandler example_two_lists 0 new_event) = ?w1"
    by (simp_all add: example_two_lists_fields example_contexts_def resolve_def
        resolve_parent_def)
  have ctx: "getContext example_two_lists 2 = ?ctx"
    by (simp add: example_two_lists_fields example_contexts_def)
  have "dragenterHandler ?w1 2 new_event = reorder ?w1 (getContext ?w1 2) [''list'', ''0''] ?e1"
    by (rule dragenter_reorder [OF l2]) (simp_all add: ctx resolve_def resolve_parent_def)
  then have enter: "dragenterHandler ?w1 2 new_event = reorder ?w1 ?ctx [''list'', ''0''] ?e1"
    by (simp add: ctx)
  have arr: "get_in (data ?w1 (ctx_ractive ?ctx)) (resolve_parent ?ctx) =
      Arr [Str ''a'', Str ''b'', Str ''c'', Str ''d'']"
    by (simp add: example_two_lists_fields example_data_def resolve_parent_def)
  show ?thesis
    using reorder_array(1,3,5) [OF arr, of "[''list'', ''0'']" ?e1]
    by (simp add: Let_def start enter example_two_lists_fields example_data_def resolve_def
        resolve_parent_def last_segment_def to_index_def parse_index_0 parse_index_2
        array_splice_def)
qed

section \<open>Teardown and the end of a drag\<close>

text \<open>
  Claim C8, as amended. Teardown removes the listeners of the handle and nothing else:
  the registry resolves every handle as before, the detached one included, and a lookup
  fails exactly for an element that is the handle of no item. With only the module's
  listeners on the page, a native drag event of any type on the detached handle finds no
  listener, so nothing is looked up, nothing changes and nothing is thrown.
\<close>

theorem teardown_detaches:
  assumes "module_only w"
  shows "getNodeToMove (teardown h w) x = getNodeToMove w x \<and>
         (getNodeToMove w x = Inl TypeError \<longleftrightarrow>
            Some x \<notin> set (map draggableNode (nodeMapping w))) \<and>
         listeners_on (teardown h w) h ty = [] \<and>
         dispatch (teardown h w) h ty e =
           \<lparr>thrown = None, world_after = teardown h w, event_after = e\<rparr>"
proof -
  have "getNodeToMove (teardown h w) x = getNodeToMove w x"
    by (simp add: getNodeToMove_def teardown_def)
  moreover have "getNodeToMove w x = Inl TypeError \<longleftrightarrow>
      Some x \<notin> set (map draggableNode (nodeMapping w))"
  proof -
    have "find (\<lambda>item. draggableNode item = Some x) (nodeMapping w) = None \<longleftrightarrow>
        Some x \<notin> set (map draggableNode (nodeMapping w))"
      by (force simp add: find_None_iff image_iff)
    then show ?thesis
      by (cases "find (\<lambda>item. draggableNode item = Some x) (nodeMapping w)")
        (simp_all add: getNodeToMove_def)
  qed
  moreover note listeners_on_teardown [OF assms, of h ty]
  ultimately show ?thesis
    by (simp add: dispatch_def)
qed

theorem teardown_detaches_witness:
  "module_only example_bound \<and>
   getNodeToMove (teardown 0 example_bound) 0 = Inr 0 \<and>
   getNodeToMove example_bound 7 = Inl TypeError \<and>
   listeners_on (teardown 0 example_bound) 0 Dragenter = [] \<and>
   dispatch (teardown 0 example_bound) 0 Dragenter new_event =
     \<lparr>thrown = None, world_after = teardown 0 example_bound, event_after = new_event\<rparr>"
proof -
  note ok = module_only_example_bound
  have "getNodeToMove example_bound 0 = Inr 0" "getNodeToMove example_bound 7 = Inl TypeError"
    by (simp_all add: example_bound_lookup)
  with ok teardown_detaches [OF ok, of 0 0 Dragenter new_event] show ?thesis
    by simp
qed

text \<open>
  The claim as stated fails: after its teardown the handle 0 of the example page is still
  resolved by the registry.
\<close>

theorem registry_keeps_detached_handle:
  "getNodeToMove (teardown 0 example_bound) 0 = Inr 0"
  by (simp add: getNodeToMove_def teardown_def example_bound_fields)

text \<open>
  Claim C9, as amended. A drag-end or drop event on a bound handle whose listener is in
  place, the target class being a valid token, runs \<^verbatim>\<open>removeTargetClass\<close> and nothing
  else: the target class is removed from the class list of the movable element of the
  handle that receives the event, and the propagation of the event is stopped. The class
  list of every other element \<open>m\<close> is as before, so a highlight elsewhere stays.
  Everything else is as before too, whether or not a reorder took place: right after the
  event the owner, the source position key and the source collection of the session
  have the values they had before it.
\<close>

theorem dragend_clears_highlight_only:
  assumes "getNodeToMove w this = Inr n"
    and "module_only w"
    and "ty = Dragend \<or> ty = Drop"
    and "(this, ty, RemoveTargetClass) \<in> listeners w"
    and "valid_token (class_token (targetClass_of w n))"
  shows "(let out = dispatch w this ty e
          in out =
               \<lparr>thrown = None,
                world_after =
                  w\<lparr>classList :=
                      (classList w)(n := classList w n - {class_token (targetClass_of w n)})\<rparr>,
                event_after = e\<lparr>propagationStopped := True\<rparr>\<rparr> \<and>
             class_token (targetClass_of w n) \<notin> classList (world_after out) n \<and>
             (m \<noteq> n \<longrightarrow> classList (world_after out) m = classList w m) \<and>
             ractive (world_after out) = ractive w \<and>
             sourceKeypath (world_after out) = sourceKeypath w \<and>
             sourceArray (world_after out) = sourceArray w)"
proof -
  have "dispatch w this ty e = removeTargetClass w this e"
    by (rule dispatch_removeTargetClass [OF assms(2,3,4)])
  then show ?thesis
    using assms(1) by (simp add: removeTargetClass_def Let_def)
qed

theorem dragend_clears_highlight_only_witness:
  "getNodeToMove highlighted_twin 0 = Inr 0 \<and>
   module_only highlighted_twin \<and>
   (Dragend = Dragend \<or> Dragend = Drop) \<and>
   (0, Dragend, RemoveTargetClass) \<in> listeners highlighted_twin \<and>
   valid_token (class_token (targetClass_of highlighted_twin 0)) \<and>
   thrown (dispatch highlighted_twin 0 Dragend new_event) = None \<and>
   ''droptarget'' \<notin> classList (world_after (dispatch highlighted_twin 0 Dragend new_event)) 0 \<and>
   classList (world_after (dispatch highlighted_twin 0 Dragend new_event)) 8 =
     classList highlighted_twin 8 \<and>
   sourceKeypath (world_after (dispatch highlighted_twin 0 Dragend new_event)) =
     sourceKeypath highlighted_twin"
proof -
  note 1 = highlighted_twin_fields(1) and 2 = highlighted_twin_fields(2)
    and 4 = highlighted_twin_fields(3)
  have 3: "Dragend = Dragend \<or> Dragend = Drop"
    by simp
  have 5: "valid_token (class_token (targetClass_of highlighted_twin 0))"
    by (simp add: highlighted_twin_fields class_token_def valid_token_droptarget)
  show ?thesis
    using dragend_clears_highlight_only [OF 1 2 3 4 5, where e = new_event and m = 8] 1 2 4 5
    by (simp add: Let_def highlighted_twin_fields class_token_def)
qed

text \<open>
  The claim as stated fails on both counts. On the page where the first member of
  \<^verbatim>\<open>list\<close> is shown by the elements 0 and 8, a drag started on element 0 enters element
  8, which gets the highlight. When the drag is given up there, the drag-end event goes
  to the dragged element 0: the hovered element 8 keeps its highlight, and the three
  session variables still hold the values of that drag.
\<close>

theorem highlight_and_session_survive_dragend:
  "''droptarget'' \<in> classList (world_after (dispatch highlighted_twin 0 Dragend new_event)) 8 \<and>
   ractive (world_after (dispatch highlighted_twin 0 Dragend new_event)) = Some 0 \<and>
   sourceKeypath (world_after (dispatch highlighted_twin 0 Dragend new_event)) =
     Some [''list'', ''0''] \<and>
   sourceArray (world_after (dispatch highlighted_twin 0 Dragend new_event)) = Some [''list'']"
proof -
  have "dispatch highlighted_twin 0 Dragend new_event =
      removeTargetClass highlighted_twin 0 new_event"
    by (simp add: dispatch_removeTargetClass highlighted_twin_fields)
  then show ?thesis
    by (simp add: removeTargetClass_def highlighted_twin_fields)
qed

section \<open>The target class\<close>

text \<open>
  Claim C10. For an attach call that gets past the lookup of the handle at lines 111 to
  117 (no selector is given, or \<^verbatim>\<open>querySelector\<close> accepts the one given, whether or not it
  finds an element), a target class argument that is left out, \<^verbatim>\<open>null\<close> or the empty
  string records the class \<^verbatim>\<open>droptarget\<close> on the movable element, whatever the element and
  the event name; a non-empty string records itself. An attach call whose selector
  \<^verbatim>\<open>querySelector\<close> rejects throws before line 124 and records nothing
  (\<open>sortable_rejected\<close>).
\<close>

theorem default_target_class:
  assumes "handle_for w node sel = Inr dn"
  shows "targetClass_of (attach_world (sortable w node sel Absent ev)) node
           = Some ''droptarget'' \<and>
         targetClass_of (attach_world (sortable w node sel NullArg ev)) node
           = Some ''droptarget'' \<and>
         targetClass_of (attach_world (sortable w node sel (StrArg '''') ev)) node
           = Some ''droptarget'' \<and>
         targetClass_of (attach_world (sortable w node sel (StrArg (c # cs)) ev)) node
           = Some (c # cs)"
  using assms by (simp add: sortable_def or_else_def Let_def split: option.splits)

theorem default_target_class_witness:
  "handle_for example_page 0 Absent = Inr (Some 0) \<and>
   targetClass_of (attach_world (sortable example_page 0 Absent Absent Absent)) 0
     = Some ''droptarget'' \<and>
   targetClass_of (attach_world (sortable example_page 0 Absent NullArg Absent)) 0
     = Some ''droptarget'' \<and>
   targetClass_of (attach_world (sortable example_page 0 Absent (StrArg '''') Absent)) 0
     = Some ''droptarget'' \<and>
   targetClass_of (attach_world (sortable example_page 0 Absent (StrArg ''ghost'') Absent)) 0
     = Some ''ghost''"
proof -
  have 1: "handle_for example_page 0 Absent = Inr (Some 0)"
    by (simp add: handle_for_def not_nullish_def)
  show ?thesis
    using default_target_class [OF 1, where ev = Absent and c = "CHR ''g''" and cs = "''host''"] 1
    by simp
qed

end
